theory Spec2Isabelle
  imports Complex_Main
begin

section \<open>Python exceptions and masked values\<close>

text \<open>
  The scripts signal every failure with a Python exception; the model returns it as a
  value on the left of a sum. The sources define no exception class of their own: the
  failures that can happen are the ones numpy, iris and the interpreter raise.
\<close>

datatype py_error = ValueError | IndexError | TypeError | UnboundLocalError

text \<open>
  A cell of a numpy masked array is \<open>None\<close> when its mask bit is set and \<open>Some x\<close>
  otherwise. Floating-point values are modelled by exact reals.
\<close>

type_synonym mval = "real option"

text \<open>\<^verbatim>\<open>np.ma.masked_where(condition, a)\<close>: a cell is masked where the condition holds
  or where \<open>a\<close> was masked already.\<close>

definition masked_where :: "bool list \<Rightarrow> mval list \<Rightarrow> mval list" where
  "masked_where cond a = map2 (\<lambda>c v. if c then None else v) cond a"


text \<open>\<^verbatim>\<open>a.compressed()\<close>: the non-masked values, in order.\<close>

definition compressed :: "mval list \<Rightarrow> real list" where
  "compressed a = map the (filter (\<lambda>v. v \<noteq> None) a)"

text \<open>\<^verbatim>\<open>np.ma.count\<close> and \<^verbatim>\<open>np.ma.mean\<close> along one axis: the number of non-masked
  entries, and their sum divided by that number (masked when there is none).\<close>

definition ma_count :: "mval list \<Rightarrow> nat" where
  "ma_count a = length (compressed a)"

definition ma_mean :: "mval list \<Rightarrow> mval" where
  "ma_mean a = (if ma_count a = 0 then None
                else Some (sum_list (compressed a) / real (ma_count a)))"

text \<open>Subtraction of two masked cells: masked where either operand is.\<close>

definition ma_sub :: "mval \<Rightarrow> mval \<Rightarrow> mval" where
  "ma_sub a b = (case a of None \<Rightarrow> None
                 | Some x \<Rightarrow> (case b of None \<Rightarrow> None | Some y \<Rightarrow> Some (x - y)))"

section \<open>Cube data\<close>

text \<open>
  The data of a cube in slp.py is a numpy array of shape \<open>(time, lat, lon)\<close>: its three
  dimensions and its cells in row-major order, so that the cell of time step \<open>t\<close> and
  grid cell \<open>c\<close> (with \<open>c < nlat * nlon\<close>) is at position \<open>t * (nlat * nlon) + c\<close>.
\<close>

record cube_data =
  ntime :: nat
  nlat :: nat
  nlon :: nat
  cells :: "mval list"

definition wf_cube :: "cube_data \<Rightarrow> bool" where
  "wf_cube d = (length (cells d) = ntime d * (nlat d * nlon d))"

text \<open>The columns along axis 0 of an array with \<open>d0\<close> entries on axis 0 and \<open>s\<close>
  cells in each of them: column \<open>k\<close> holds the cells \<open>y * s + k\<close>.\<close>

definition axis0_columns :: "nat \<Rightarrow> nat \<Rightarrow> 'a list \<Rightarrow> 'a list list" where
  "axis0_columns d0 s cs = map (\<lambda>k. map (\<lambda>y. cs ! (y * s + k)) [0..<d0]) [0..<s]"

section \<open>Climatology (slp.py, lines 362 to 367)\<close>

text \<open>
  \<^verbatim>\<open>clim_data = clim_cube.data.reshape(-1, 12, shape[-2], shape[-1])\<close>.
  numpy computes the unknown dimension as the size divided by the product of the known
  ones, and raises \<open>ValueError\<close> when that product is zero or does not divide the size.
  The result is the number of years; the cells stay as they are.
\<close>

definition reshape_years :: "cube_data \<Rightarrow> py_error + nat" where
  "reshape_years d =
     (let known = 12 * nlat d * nlon d; n = ntime d * nlat d * nlon d
      in if known = 0 \<or> n mod known \<noteq> 0 then Inl ValueError
         else Inr (n div known))"

text \<open>
  \<^verbatim>\<open>climatology = np.ma.mean(clim_data, axis = 0)\<close>
  \<^verbatim>\<open>nyears = np.ma.count(clim_data, axis = 0)\<close>
  \<^verbatim>\<open>climatology = np.ma.masked_where(nyears <= 15, climatology)\<close>
  The threshold 15 of the script is the parameter \<open>min_years\<close>. The result is the
  masked climatology of shape \<open>(12, nlat, nlon)\<close> and the counts.
\<close>

definition climatology :: "nat \<Rightarrow> cube_data \<Rightarrow> py_error + (cube_data \<times> nat list)" where
  "climatology min_years d =
     (case reshape_years d of
        Inl e \<Rightarrow> Inl e
      | Inr ny \<Rightarrow>
          (let cols = axis0_columns ny (12 * nlat d * nlon d) (cells d);
               mean = map ma_mean cols;
               nyears = map ma_count cols
           in Inr (\<lparr>ntime = 12, nlat = nlat d, nlon = nlon d,
                    cells = masked_where (map (\<lambda>c. c \<le> min_years) nyears) mean\<rparr>,
                   nyears)))"

section \<open>Anomalies (slp.py, lines 374 to 379 and 396 to 399)\<close>

text \<open>
  \<^verbatim>\<open>cube.data = cube.data - climatology\<close>. Both operands come from the same cube, so
  they agree on \<open>nlat\<close> and \<open>nlon\<close>; when the time axes differ numpy either raises or
  broadcasts to a shape that the setter of \<open>cube.data\<close> refuses, a \<open>ValueError\<close> in
  both cases.
\<close>

definition cube_sub :: "cube_data \<Rightarrow> cube_data \<Rightarrow> py_error + cube_data" where
  "cube_sub a b =
     (if ntime a = ntime b \<and> nlat a = nlat b \<and> nlon a = nlon b
      then Inr (a\<lparr>cells := map2 ma_sub (cells a) (cells b)\<rparr>)
      else Inl ValueError)"

text \<open>
  \<^verbatim>\<open>final_year_cube.data = final_year_cube.data - climatology\<close>
  \<^verbatim>\<open>annual_cube = final_year_cube.collapsed(['time'], iris.analysis.MEAN)\<close>
  \<^verbatim>\<open>nmonths = np.ma.count(final_year_cube.data, axis = 0)\<close>
  \<^verbatim>\<open>annual_cube.data = np.ma.masked_where(nmonths <=6, annual_cube.data)\<close>
  The threshold 6 of the script is the parameter \<open>min_observations\<close>. The mean of iris
  over masked data is the masked mean. The result is the annual field of shape
  \<open>(nlat, nlon)\<close> and the counts.
\<close>

definition annual_anomaly ::
  "nat \<Rightarrow> cube_data \<Rightarrow> cube_data \<Rightarrow> py_error + (mval list \<times> nat list)" where
  "annual_anomaly min_observations final_year clim =
     (case cube_sub final_year clim of
        Inl e \<Rightarrow> Inl e
      | Inr anoms \<Rightarrow>
          (let cols = axis0_columns (ntime anoms) (nlat anoms * nlon anoms) (cells anoms);
               mean = map ma_mean cols;
               nmonths = map ma_count cols
           in Inr (masked_where (map (\<lambda>c. c \<le> min_observations) nmonths) mean, nmonths)))"

text \<open>\<^verbatim>\<open>np.tile(a, (reps, 1, 1))\<close> on three-dimensional data: \<open>reps\<close> copies along the
  time axis.\<close>

definition tile_time :: "nat \<Rightarrow> cube_data \<Rightarrow> cube_data" where
  "tile_time reps a = a\<lparr>ntime := ntime a * reps, cells := concat (replicate reps (cells a))\<rparr>"

text \<open>\<^verbatim>\<open>a[0:n, :, :]\<close>: the first \<open>n\<close> time steps, or all of them when there are
  fewer.\<close>

definition slice_time :: "nat \<Rightarrow> cube_data \<Rightarrow> cube_data" where
  "slice_time n a =
     a\<lparr>ntime := min n (ntime a), cells := take (min n (ntime a) * (nlat a * nlon a)) (cells a)\<rparr>"

text \<open>
  \<^verbatim>\<open>climatology = np.tile(climatology, ((cube.data.shape[0]/12)+1,1,1))\<close>
  \<^verbatim>\<open>anoms.data = anoms.data - climatology[0:anoms.data.shape[0], :, :]\<close>
  slp.py is Python 2 (it has a \<open>print\<close> statement), so \<open>/\<close> on integers is floor
  division.
\<close>

definition tiled_anomalies :: "cube_data \<Rightarrow> cube_data \<Rightarrow> py_error + cube_data" where
  "tiled_anomalies cube clim =
     cube_sub cube (slice_time (ntime cube) (tile_time (ntime cube div 12 + 1) clim))"

section \<open>Reading tables with numpy\<close>

text \<open>
  \<^verbatim>\<open>np.genfromtxt(filename, dtype = float, skip_header = h, skip_footer = f)\<close>. The
  input of the model is the list of the lines after the header, each line the list of
  its tokens read as floats. Blank lines are skipped. The number of columns is that of
  the first line; with the last \<open>f\<close> lines dropped, a line with another number of
  columns is a \<open>ValueError\<close>. The result is squeezed: a table of one row or of one
  column is a one-dimensional array, a single number a zero-dimensional one, and an
  empty input gives an empty one-dimensional array. (With blank lines in the file numpy
  counts the footer in file lines; the model assumes there are none there.)
\<close>

datatype ndarray = Arr0 real | Arr1 "real list" | Arr2 "real list list"

definition squeeze :: "real list list \<Rightarrow> ndarray" where
  "squeeze rows =
     (if length rows = 1 \<and> length (hd rows) = 1 then Arr0 (hd (hd rows))
      else if length rows = 1 then Arr1 (hd rows)
      else if length (hd rows) = 1 then Arr1 (map hd rows)
      else Arr2 rows)"

definition genfromtxt :: "nat \<Rightarrow> real list list \<Rightarrow> py_error + ndarray" where
  "genfromtxt skip_footer lines =
     (let rows = filter (\<lambda>r. r \<noteq> []) lines
      in case rows of
           [] \<Rightarrow> Inr (Arr1 [])
         | first # _ \<Rightarrow>
             (let kept = take (length rows - skip_footer) rows
              in if list_ex (\<lambda>r. length r \<noteq> length first) kept then Inl ValueError
                 else if kept = [] then Inr (Arr1 [])
                 else Inr (squeeze kept)))"

section \<open>The ozone grid (soz.py, \<open>read_data\<close>)\<close>



section \<open>The SOI series (slp.py, \<open>read_soi\<close>)\<close>

text \<open>
  Modelled from the spec: the class \<open>utils.Timeseries\<close> is not among the sources. The
  spec's TimeSeries is a named ordered sequence of times and values; the object is
  modelled with the three attributes the scripts pass to it and read from it, \<open>name\<close>,
  \<open>times\<close> and \<open>data\<close>, stored as given.
\<close>

record timeseries =
  ts_name :: string
  ts_times :: "real list"
  ts_data :: "real list"

text \<open>
  \<^verbatim>\<open>np.arange(start, stop, step)\<close> for a positive step: \<open>\<lceil>(stop - start) / step\<rceil>\<close>
  values \<open>start + k * step\<close>. numpy computes the length in floating point; the model
  computes it exactly.
\<close>

definition arange :: "real \<Rightarrow> real \<Rightarrow> real \<Rightarrow> real list" where
  "arange start stop step =
     map (\<lambda>k. start + real k * step) [0..<nat \<lceil>(stop - start) / step\<rceil>]"

text \<open>
  \<^verbatim>\<open>years = all_data[:,0]\<close>
  \<^verbatim>\<open>data = all_data[:,1:]\<close>
  \<^verbatim>\<open>times = np.arange(years[0], years[-1]+1, 1/12.)\<close>
  \<^verbatim>\<open>return utils.Timeseries("SOI", times, data.reshape(-1))\<close>
  Two indices into an array of fewer than two dimensions are an \<open>IndexError\<close>.
\<close>

definition soi_series :: "ndarray \<Rightarrow> py_error + timeseries" where
  "soi_series all_data =
     (case all_data of
        Arr2 rows \<Rightarrow>
          (let years = map hd rows; data = map tl rows
           in Inr \<lparr>ts_name = ''SOI'',
                   ts_times = arange (hd years) (last years + 1) (1 / 12),
                   ts_data = concat data\<rparr>)
      | _ \<Rightarrow> Inl IndexError)"

text \<open>
  \<^verbatim>\<open>try: all_data = np.genfromtxt(filename, dtype = (float), skip_header = 9)\<close>
  \<^verbatim>\<open>except ValueError:\<close>
  \<^verbatim>\<open>    all_data = np.genfromtxt(..., skip_header = 9, skip_footer = 1)\<close>
\<close>

definition read_soi :: "real list list \<Rightarrow> py_error + timeseries" where
  "read_soi lines =
     (case (case genfromtxt 0 lines of
              Inl ValueError \<Rightarrow> genfromtxt 1 lines
            | r \<Rightarrow> r) of
        Inl e \<Rightarrow> Inl e
      | Inr all_data \<Rightarrow> soi_series all_data)"

section \<open>The monthly pressure fields (slp.py, \<open>read_hadslp\<close>)\<close>

text \<open>
  A line of the file is the list of its whitespace-separated tokens. A token is
  \<open>Some n\<close> when Python's \<open>int\<close> reads it as \<open>n\<close>, and \<open>None\<close> when \<open>int\<close> rejects
  it with a \<open>ValueError\<close>.
\<close>

type_synonym token = "int option"

record hadslp_state =
  years :: "int list"
  months :: "int list"
  all_months :: "token list list list"
  this_month :: "token list list option"













section \<open>Example inputs\<close>

text \<open>Concrete inputs on which the theorems below are instantiated.\<close>

definition two_year_cube :: cube_data where
  "two_year_cube = \<lparr>ntime = 24, nlat = 1, nlon = 2,
                     cells = map (\<lambda>i. if i = 1 then None else Some 1) [0..<48]\<rparr>"

definition thirteen_month_cube :: cube_data where
  "thirteen_month_cube = \<lparr>ntime = 13, nlat = 1, nlon = 2, cells = replicate 26 (Some 1)\<rparr>"

definition marker_climatology :: cube_data where
  "marker_climatology = \<lparr>ntime = 12, nlat = 1, nlon = 1, cells = map (\<lambda>m. Some (real m)) [0..<12]\<rparr>"

definition thirty_month_cube :: cube_data where
  "thirty_month_cube = \<lparr>ntime = 30, nlat = 1, nlon = 1, cells = replicate 30 (Some 100)\<rparr>"

definition seven_masked_year :: cube_data where
  "seven_masked_year = \<lparr>ntime = 12, nlat = 1, nlon = 1,
      cells = [Some 1, Some 2, Some 3, Some 4, Some 5, None, None, None, None, None, None, None]\<rparr>"

definition five_masked_year :: cube_data where
  "five_masked_year = \<lparr>ntime = 12, nlat = 1, nlon = 1,
      cells = [Some 1, Some 2, Some 3, Some 4, Some 5, Some 6, Some 7, None, None, None, None, None]\<rparr>"

definition zero_climatology :: cube_data where
  "zero_climatology = \<lparr>ntime = 12, nlat = 1, nlon = 1, cells = replicate 12 (Some 0)\<rparr>"





text \<open>Tables of the SOI file: a year and its twelve monthly values in each row.\<close>

definition overlong_final_row :: "real list list" where
  "overlong_final_row = [2014 # replicate 12 1, 2015 # replicate 12 2, 2016 # replicate 13 3]"

definition short_final_row :: "real list list" where
  "short_final_row = [2014 # replicate 12 1, 2015 # replicate 12 2, 2016 # replicate 5 3]"

definition two_row_file :: "real list list" where
  "two_row_file = [2015 # replicate 12 2, 2016 # replicate 5 3]"

definition ragged_middle_row :: "real list list" where
  "ragged_middle_row = [2014 # replicate 12 1, 2015 # replicate 5 2, 2016 # replicate 12 3]"


section \<open>Helper lemmas\<close>

lemma ma_mean_None_iff: "ma_mean a = None \<longleftrightarrow> ma_count a = 0"
  by (simp add: ma_mean_def)

lemma ma_count_map_upt:
  "ma_count (map f [0..<n]) = length (filter (\<lambda>y. f y \<noteq> None) [0..<n])"
  by (simp add: ma_count_def compressed_def filter_map comp_def)

lemma length_axis0_columns: "length (axis0_columns d0 s cs) = s"
  by (simp add: axis0_columns_def)

lemma nth_axis0_columns:
  "k < s \<Longrightarrow> axis0_columns d0 s cs ! k = map (\<lambda>y. cs ! (y * s + k)) [0..<d0]"
  by (simp add: axis0_columns_def)

lemma masked_where_threshold_nth:
  assumes "k < length cols"
  shows "masked_where (map (\<lambda>c. c \<le> m) (map ma_count cols)) (map ma_mean cols) ! k
         = (if ma_count (cols ! k) \<le> m then None else ma_mean (cols ! k))"
  using assms by (simp add: masked_where_def)

lemma reshape_years_cases:
  "reshape_years d =
     (if nlat d * nlon d = 0 \<or> ntime d mod 12 \<noteq> 0 then Inl ValueError
      else Inr (ntime d div 12))"
proof (cases "nlat d * nlon d = 0")
  case True
  then show ?thesis by (auto simp: reshape_years_def)
next
  case False
  then have g: "0 < nlat d * nlon d" by simp
  have m: "(ntime d * (nlat d * nlon d)) mod (12 * (nlat d * nlon d))
             = (ntime d mod 12) * (nlat d * nlon d)"
    by (simp add: mult_mod_left mult.commute)
  have dv: "(ntime d * (nlat d * nlon d)) div (12 * (nlat d * nlon d)) = ntime d div 12"
    using g by simp
  show ?thesis
    using False g m dv by (simp add: reshape_years_def Let_def mult.assoc)
qed


lemma concat_replicate_nth:
  "j < r * length xs \<Longrightarrow> concat (replicate r xs) ! j = xs ! (j mod length xs)"
proof (induction r arbitrary: j)
  case 0
  then show ?case by simp
next
  case (Suc r)
  show ?case
  proof (cases "j < length xs")
    case True
    then show ?thesis by (simp add: nth_append)
  next
    case False
    then have "j - length xs < r * length xs" using Suc.prems by simp
    then have "concat (replicate r xs) ! (j - length xs) = xs ! ((j - length xs) mod length xs)"
      by (rule Suc.IH)
    moreover have "(j - length xs) mod length xs = j mod length xs"
      using False by (simp add: le_mod_geq)
    ultimately show ?thesis using False by (simp add: nth_append)
  qed
qed

lemma cycle_position:
  fixes i c g :: nat
  assumes "c < g"
  shows "(i * g + c) mod (12 * g) = (i mod 12) * g + c"
proof -
  have lt: "(i mod 12) * g + c < 12 * g"
  proof -
    have "(i mod 12) * g + c < (i mod 12) * g + g" using assms by simp
    also have "\<dots> = (i mod 12 + 1) * g" by simp
    also have "\<dots> \<le> 12 * g" by (intro mult_le_mono1) simp
    finally show ?thesis .
  qed
  define q p where "q = i div 12" and "p = i mod 12"
  have "i = 12 * q + p" by (simp add: q_def p_def)
  then have "i * g + c = q * (12 * g) + (p * g + c)"
    by (simp add: algebra_simps)
  then have "i * g + c = (i div 12) * (12 * g) + ((i mod 12) * g + c)"
    by (simp add: q_def p_def)
  then have "(i * g + c) mod (12 * g) = ((i mod 12) * g + c) mod (12 * g)"
    by (metis add.commute mod_mult_self1)
  with lt show ?thesis by simp
qed

lemma cell_index_bound:
  fixes i c g t :: nat
  assumes "i < t" and "c < g"
  shows "i * g + c < t * g"
proof -
  have "i * g + c < i * g + g" using assms by simp
  also have "\<dots> = (i + 1) * g" by simp
  also have "\<dots> \<le> t * g" using assms by (intro mult_le_mono1) simp
  finally show ?thesis .
qed

lemma annual_five_masked_6:
  "annual_anomaly 6 five_masked_year zero_climatology = Inr ([Some 4], [7])"
  by (simp add: annual_anomaly_def cube_sub_def five_masked_year_def zero_climatology_def
      axis0_columns_def masked_where_def ma_mean_def ma_count_def compressed_def ma_sub_def
      upt_rec numeral_eq_Suc)

lemma annual_five_masked_7:
  "annual_anomaly 7 five_masked_year zero_climatology = Inr ([None], [7])"
  by (simp add: annual_anomaly_def cube_sub_def five_masked_year_def zero_climatology_def
      axis0_columns_def masked_where_def ma_mean_def ma_count_def compressed_def ma_sub_def
      upt_rec numeral_eq_Suc)












lemma genfromtxt_ragged:
  assumes "[] \<notin> set lines" and "r \<in> set lines" and "length r \<noteq> length (hd lines)"
  shows "genfromtxt 0 lines = Inl ValueError"
proof -
  have f: "filter (\<lambda>r. r \<noteq> []) lines = lines"
    using assms(1) by (induction lines) auto
  obtain first rest where l: "lines = first # rest"
    using assms(2) by (cases lines) auto
  have "list_ex (\<lambda>r. length r \<noteq> length first) lines"
    using assms(2,3) l unfolding list_ex_iff by auto
  then show ?thesis
    using l f by (simp add: genfromtxt_def Let_def)
qed

lemma genfromtxt_footer_table:
  assumes "[] \<notin> set lines" and "2 \<le> length (butlast lines)"
    and "\<forall>r \<in> set (butlast lines). length r = ncol" and "2 \<le> ncol"
  shows "genfromtxt 1 lines = Inr (Arr2 (butlast lines))"
proof -
  have f: "filter (\<lambda>r. r \<noteq> []) lines = lines"
    using assms(1) by (induction lines) auto
  obtain first rest where l: "lines = first # rest"
    using assms(2) by (cases lines) auto
  have k: "take (length lines - 1) lines = butlast lines"
    by (simp add: butlast_conv_take)
  have ne: "butlast lines \<noteq> []" using assms(2) by (auto simp del: length_butlast)
  have hb: "hd (butlast lines) = first"
    using l ne by (cases rest) auto
  have "first \<in> set (butlast lines)"
    using hb ne hd_in_set by metis
  then have h: "length first = ncol" using assms(3) by simp
  have "\<not> list_ex (\<lambda>r. length r \<noteq> length first) (butlast lines)"
    using assms(3) h by (simp add: list_ex_iff)
  moreover have "squeeze (butlast lines) = Arr2 (butlast lines)"
    using assms(2,4) h hb by (simp add: squeeze_def)
  ultimately show ?thesis
    using l f k ne unfolding genfromtxt_def Let_def f
    by (simp del: butlast.simps)
qed

lemma length_concat_tl:
  assumes "\<forall>r \<in> set rows. length r = ncol"
  shows "length (concat (map tl rows)) = length rows * (ncol - 1)"
  using assms by (induction rows) simp_all





section \<open>Climatology masking\<close>

text \<open>
  C1. For every sub-period \<open>m\<close> and grid cell \<open>c\<close> of the climatology, the count
  \<open>nyears\<close> is the number of years of the reference window whose value for that month
  and cell is not masked, and the mean is masked exactly when that count is at most
  \<open>min_years\<close>: a cell with exactly \<open>min_years\<close> contributing years is masked, one with
  \<open>min_years + 1\<close> is not.
\<close>

theorem climatology_masked_iff_count_le:
  assumes "climatology min_years d = Inr (clim, nyears)"
    and "wf_cube d" and "m < 12" and "c < nlat d * nlon d"
  shows "nyears ! (m * (nlat d * nlon d) + c) =
           length (filter (\<lambda>y. cells d ! ((12 * y + m) * (nlat d * nlon d) + c) \<noteq> None)
                     [0..<ntime d div 12])
         \<and> (cells clim ! (m * (nlat d * nlon d) + c) = None
              \<longleftrightarrow> nyears ! (m * (nlat d * nlon d) + c) \<le> min_years)"
proof -
  let ?G = "nlat d * nlon d"
  let ?k = "m * ?G + c"
  let ?Y = "ntime d div 12"
  from assms(1) have ok: "reshape_years d = Inr ?Y"
    using reshape_years_cases [of d]
    by (auto simp: climatology_def split: sum.splits if_splits)
  have k: "?k < 12 * nlat d * nlon d"
    using cell_index_bound [OF assms(3,4)] by (simp add: mult.assoc)
  define cols where "cols = axis0_columns ?Y (12 * nlat d * nlon d) (cells d)"
  have lc: "length cols = 12 * nlat d * nlon d"
    by (simp add: cols_def length_axis0_columns)
  have ny: "nyears = map ma_count cols"
    and cl: "cells clim = masked_where (map (\<lambda>c. c \<le> min_years) (map ma_count cols))
                             (map ma_mean cols)"
    using assms(1) ok by (auto simp: climatology_def Let_def cols_def)
  have idx: "y * (12 * nlat d * nlon d) + ?k = (12 * y + m) * ?G + c" for y
    by (simp add: algebra_simps)
  have col: "cols ! ?k = map (\<lambda>y. cells d ! ((12 * y + m) * ?G + c)) [0..<?Y]"
    unfolding cols_def using nth_axis0_columns [OF k] by (simp add: idx)
  have cnt: "nyears ! ?k =
      length (filter (\<lambda>y. cells d ! ((12 * y + m) * ?G + c) \<noteq> None) [0..<?Y])"
    using k lc by (simp add: ny col ma_count_map_upt)
  have "cells clim ! ?k = (if ma_count (cols ! ?k) \<le> min_years then None else ma_mean (cols ! ?k))"
    unfolding cl using masked_where_threshold_nth [of ?k cols min_years] k lc by simp
  moreover have "nyears ! ?k = ma_count (cols ! ?k)"
    using k lc by (simp add: ny)
  ultimately have "cells clim ! ?k = None \<longleftrightarrow> nyears ! ?k \<le> min_years"
    by (auto simp: ma_mean_None_iff)
  with cnt show ?thesis by simp
qed

text \<open>
  Two years of a grid of two cells with \<open>min_years = 1\<close>: for January, the second cell
  has one contributing year and is masked, the first has two and is not.
\<close>

theorem climatology_masked_iff_count_le_witness:
  "\<exists>clim nyears. climatology 1 two_year_cube = Inr (clim, nyears)
      \<and> nyears ! 1 = 1 \<and> cells clim ! 1 = None
      \<and> nyears ! 0 = 2 \<and> cells clim ! 0 \<noteq> None"
proof -
  have wf: "wf_cube two_year_cube" by (simp add: wf_cube_def two_year_cube_def)
  have dims: "ntime two_year_cube = 24" "nlat two_year_cube = 1" "nlon two_year_cube = 2"
    by (simp_all add: two_year_cube_def)
  have "reshape_years two_year_cube = Inr 2"
    using reshape_years_cases [of two_year_cube] by (simp add: dims)
  then obtain clim nyears where r: "climatology 1 two_year_cube = Inr (clim, nyears)"
    by (simp add: climatology_def Let_def)
  have c1: "cells two_year_cube ! 1 = None" "cells two_year_cube ! 25 \<noteq> None"
     "cells two_year_cube ! 0 \<noteq> None" "cells two_year_cube ! 24 \<noteq> None"
    by (simp_all add: two_year_cube_def)
  have u: "[0..<2] = [0, Suc 0]" by (simp add: upt_rec)
  have a: "nyears ! 1 = 1 \<and> cells clim ! 1 = None"
    using climatology_masked_iff_count_le [OF r wf, of 0 1] c1 by (simp add: dims u)
  have b: "nyears ! 0 = 2 \<and> cells clim ! 0 \<noteq> None"
    using climatology_masked_iff_count_le [OF r wf, of 0 0] c1 by (simp add: dims u)
  from r a b show ?thesis by blast
qed

section \<open>Tiling the climatology\<close>

text \<open>
  C2. When a climatology of 12 sub-periods is tiled along a target series of any length
  and truncated to it, the subtraction succeeds and, for every time index \<open>i\<close> and grid
  cell \<open>c\<close>, the value subtracted at \<open>i\<close> is the climatology entry of sub-period
  \<open>i mod 12\<close> for that cell.
\<close>

theorem tiled_climatology_phase:
  assumes "wf_cube cube" and "wf_cube clim" and "ntime clim = 12"
    and "nlat clim = nlat cube" and "nlon clim = nlon cube"
  shows "\<exists>an. tiled_anomalies cube clim = Inr an \<and> ntime an = ntime cube
           \<and> length (cells an) = ntime cube * (nlat cube * nlon cube)
           \<and> (\<forall>i < ntime cube. \<forall>c < nlat cube * nlon cube.
                 cells an ! (i * (nlat cube * nlon cube) + c)
                 = ma_sub (cells cube ! (i * (nlat cube * nlon cube) + c))
                          (cells clim ! ((i mod 12) * (nlat cube * nlon cube) + c)))"
proof -
  let ?T = "ntime cube"
  let ?G = "nlat cube * nlon cube"
  define r where "r = ?T div 12 + 1"
  define tiled where "tiled = concat (replicate r (cells clim))"
  have lc: "length (cells clim) = 12 * ?G" and ld: "length (cells cube) = ?T * ?G"
    using assms by (simp_all add: wf_cube_def)
  have big: "?T < 12 * r"
    using div_mult_mod_eq [of ?T 12] by (simp add: r_def)
  then have mn: "min ?T (12 * r) = ?T" by simp
  have ltile: "length tiled = r * (12 * ?G)"
    by (simp add: tiled_def length_concat sum_list_replicate lc)
  have le: "?T * ?G \<le> r * (12 * ?G)"
  proof -
    have "?T * ?G \<le> (12 * r) * ?G" using big by (intro mult_le_mono1) simp
    then show ?thesis by (simp add: algebra_simps)
  qed
  define clim' where "clim' = slice_time ?T (tile_time r clim)"
  have dims: "ntime clim' = ?T" "nlat clim' = nlat cube" "nlon clim' = nlon cube"
    using assms(3,4,5) mn by (simp_all add: clim'_def slice_time_def tile_time_def)
  have cl: "cells clim' = take (?T * ?G) tiled"
    using assms(3,4,5) mn by (simp add: clim'_def slice_time_def tile_time_def tiled_def)
  have lcl: "length (cells clim') = ?T * ?G"
    using le by (simp add: cl ltile)
  define an where "an = cube\<lparr>cells := map2 ma_sub (cells cube) (cells clim')\<rparr>"
  have res: "tiled_anomalies cube clim = Inr an"
    using dims by (simp add: tiled_anomalies_def cube_sub_def an_def clim'_def r_def)
  have nt: "ntime an = ?T" by (simp add: an_def)
  have lan: "length (cells an) = ?T * ?G" by (simp add: an_def ld lcl)
  have cellwise: "cells an ! (i * ?G + c)
                 = ma_sub (cells cube ! (i * ?G + c)) (cells clim ! ((i mod 12) * ?G + c))"
    if "i < ?T" and "c < ?G" for i c
  proof -
    have j: "i * ?G + c < ?T * ?G" using that by (rule cell_index_bound)
    have "cells clim' ! (i * ?G + c) = tiled ! (i * ?G + c)"
      using j by (simp add: cl)
    also have "\<dots> = cells clim ! ((i * ?G + c) mod (12 * ?G))"
      unfolding tiled_def
      using concat_replicate_nth [of "i * ?G + c" r "cells clim"] j le by (simp add: lc)
    also have "\<dots> = cells clim ! ((i mod 12) * ?G + c)"
      using cycle_position [OF that(2), of i] by simp
    finally have "cells clim' ! (i * ?G + c) = cells clim ! ((i mod 12) * ?G + c)" .
    then show ?thesis using j by (simp add: an_def ld lcl)
  qed
  from res nt lan cellwise show ?thesis by blast
qed

text \<open>A series of 30 months against a climatology whose entry for month \<open>m\<close> is the
  marker \<open>m\<close>: index 23 subtracts marker 11, index 24 marker 0, index 29 marker 5.\<close>

theorem tiled_climatology_phase_witness:
  "\<exists>an. tiled_anomalies thirty_month_cube marker_climatology = Inr an \<and> ntime an = 30
      \<and> cells an ! 23 = Some 89 \<and> cells an ! 24 = Some 100 \<and> cells an ! 29 = Some 95"
proof -
  have w1: "wf_cube thirty_month_cube" by (simp add: wf_cube_def thirty_month_cube_def)
  have w2: "wf_cube marker_climatology" by (simp add: wf_cube_def marker_climatology_def)
  have d: "ntime marker_climatology = 12" "nlat marker_climatology = nlat thirty_month_cube"
    "nlon marker_climatology = nlon thirty_month_cube"
    by (simp_all add: thirty_month_cube_def marker_climatology_def)
  from tiled_climatology_phase [OF w1 w2 d]
  obtain an where r: "tiled_anomalies thirty_month_cube marker_climatology = Inr an"
    and nt: "ntime an = ntime thirty_month_cube"
    and c: "\<forall>i < ntime thirty_month_cube. \<forall>c < nlat thirty_month_cube * nlon thirty_month_cube.
                 cells an ! (i * (nlat thirty_month_cube * nlon thirty_month_cube) + c)
                 = ma_sub (cells thirty_month_cube ! (i * (nlat thirty_month_cube * nlon thirty_month_cube) + c))
                          (cells marker_climatology ! ((i mod 12) * (nlat thirty_month_cube * nlon thirty_month_cube) + c))"
    by blast
  have dims: "ntime thirty_month_cube = 30" "nlat thirty_month_cube * nlon thirty_month_cube = 1"
    by (simp_all add: thirty_month_cube_def)
  have a: "cells an ! 23 = Some 89"
    using c [rule_format, of 23 0] unfolding dims
    by (simp add: thirty_month_cube_def marker_climatology_def ma_sub_def)
  have b: "cells an ! 24 = Some 100"
    using c [rule_format, of 24 0] unfolding dims
    by (simp add: thirty_month_cube_def marker_climatology_def ma_sub_def)
  have e: "cells an ! 29 = Some 95"
    using c [rule_format, of 29 0] unfolding dims
    by (simp add: thirty_month_cube_def marker_climatology_def ma_sub_def)
  from r nt a b e dims show ?thesis by auto
qed

section \<open>Masking of the annual mean\<close>

text \<open>
  C3, as claimed: with 7 of the 12 monthly anomalies masked, the annual mean is unmasked
  for \<open>min_observations = 6\<close>. It is not: 5 months contribute, and 5 is at most 6, so
  the script masks the cell.
\<close>

theorem annual_mask_five_of_twelve_counterexample:
  "annual_anomaly 6 seven_masked_year zero_climatology = Inr ([None], [5])"
  by (simp add: annual_anomaly_def cube_sub_def seven_masked_year_def zero_climatology_def
      axis0_columns_def masked_where_def ma_mean_def ma_count_def compressed_def ma_sub_def
      upt_rec numeral_eq_Suc)

text \<open>
  C3, amended: the annual mean of a cell is masked exactly when the number of its
  non-masked monthly anomalies is at most \<open>min_observations\<close>, and \<open>nmonths\<close> is that
  number.
\<close>

theorem annual_masked_iff_count_le:
  assumes "annual_anomaly min_observations final_year clim = Inr (annual, nmonths)"
    and "wf_cube final_year" and "wf_cube clim"
    and "c < nlat final_year * nlon final_year"
  shows "nmonths ! c =
           length (filter (\<lambda>t. ma_sub (cells final_year ! (t * (nlat final_year * nlon final_year) + c))
                                     (cells clim ! (t * (nlat final_year * nlon final_year) + c)) \<noteq> None)
                     [0..<ntime final_year])
         \<and> (annual ! c = None \<longleftrightarrow> nmonths ! c \<le> min_observations)"
proof -
  let ?T = "ntime final_year"
  let ?G = "nlat final_year * nlon final_year"
  from assms(1) have dims: "ntime final_year = ntime clim" "nlat final_year = nlat clim"
    "nlon final_year = nlon clim"
    by (auto simp: annual_anomaly_def cube_sub_def split: if_splits)
  define an where "an = map2 ma_sub (cells final_year) (cells clim)"
  define cols where "cols = axis0_columns ?T ?G an"
  have lens: "length (cells final_year) = ?T * ?G" "length (cells clim) = ?T * ?G"
    using assms(2,3) dims by (simp_all add: wf_cube_def)
  have lc: "length cols = ?G" by (simp add: cols_def length_axis0_columns)
  have nm: "nmonths = map ma_count cols"
    and av: "annual = masked_where (map (\<lambda>c. c \<le> min_observations) (map ma_count cols)) (map ma_mean cols)"
    using assms(1) dims by (auto simp: annual_anomaly_def cube_sub_def Let_def cols_def an_def)
  have cell: "an ! (t * ?G + c) = ma_sub (cells final_year ! (t * ?G + c)) (cells clim ! (t * ?G + c))"
    if "t < ?T" for t
  proof -
    have "t * ?G + c < ?T * ?G" using that assms(4) by (rule cell_index_bound)
    then show ?thesis by (simp add: an_def lens)
  qed
  have col: "cols ! c = map (\<lambda>t. an ! (t * ?G + c)) [0..<?T]"
    unfolding cols_def by (rule nth_axis0_columns [OF assms(4)])
  have "ma_count (cols ! c) = length (filter (\<lambda>t. an ! (t * ?G + c) \<noteq> None) [0..<?T])"
    by (simp add: col ma_count_map_upt)
  also have "\<dots> = length (filter (\<lambda>t. ma_sub (cells final_year ! (t * ?G + c))
                                     (cells clim ! (t * ?G + c)) \<noteq> None) [0..<?T])"
    by (rule arg_cong [where f = length], rule filter_cong) (simp_all add: cell)
  finally have cnt: "nmonths ! c = length (filter (\<lambda>t. ma_sub (cells final_year ! (t * ?G + c))
                                     (cells clim ! (t * ?G + c)) \<noteq> None) [0..<?T])"
    using assms(4) lc by (simp add: nm)
  have "annual ! c = (if ma_count (cols ! c) \<le> min_observations then None else ma_mean (cols ! c))"
    unfolding av using masked_where_threshold_nth [of c cols min_observations] assms(4) lc by simp
  moreover have "nmonths ! c = ma_count (cols ! c)"
    using assms(4) lc by (simp add: nm)
  ultimately have "annual ! c = None \<longleftrightarrow> nmonths ! c \<le> min_observations"
    by (auto simp: ma_mean_None_iff)
  with cnt show ?thesis by simp
qed

text \<open>With 5 of the 12 months masked, 7 contribute: the mean is unmasked for
  \<open>min_observations = 6\<close> and masked for \<open>min_observations = 7\<close>.\<close>

theorem annual_masked_iff_count_le_witness:
  "(\<exists>annual nmonths. annual_anomaly 6 five_masked_year zero_climatology = Inr (annual, nmonths)
       \<and> nmonths ! 0 = 7 \<and> annual ! 0 \<noteq> None)
   \<and> (\<exists>annual nmonths. annual_anomaly 7 five_masked_year zero_climatology = Inr (annual, nmonths)
       \<and> nmonths ! 0 = 7 \<and> annual ! 0 = None)"
proof -
  have w1: "wf_cube five_masked_year" by (simp add: wf_cube_def five_masked_year_def)
  have w2: "wf_cube zero_climatology" by (simp add: wf_cube_def zero_climatology_def)
  have c: "0 < nlat five_masked_year * nlon five_masked_year"
    by (simp add: five_masked_year_def)
  have six: "[Some 4 :: mval] ! 0 \<noteq> None \<and> [7 :: nat] ! 0 = 7"
    using annual_masked_iff_count_le [OF annual_five_masked_6 w1 w2 c] by simp
  have seven: "[None :: mval] ! 0 = None \<and> [7 :: nat] ! 0 = 7"
    using annual_masked_iff_count_le [OF annual_five_masked_7 w1 w2 c] by simp
  from six seven annual_five_masked_6 annual_five_masked_7 show ?thesis by blast
qed

section \<open>Token count of the ozone grid\<close>




section \<open>Order of the monthly blocks\<close>




section \<open>Masked entries in averages\<close>



section \<open>Day offsets of the monthly blocks\<close>



section \<open>Recovery of the SOI parser\<close>

text \<open>
  C8, as claimed: the retry without the final row applies only when the final row has
  fewer columns than the rows before it, and then the parse does not raise. Neither
  holds: a final row with more columns than the others is dropped in the same way, and a
  file of two rows whose second row is incomplete raises \<open>IndexError\<close>, because the
  single remaining row is a one-dimensional array.
\<close>

theorem soi_retry_on_overlong_row_counterexample:
  "genfromtxt 0 overlong_final_row = Inl ValueError
   \<and> map_sum id ts_data (read_soi overlong_final_row) = Inr (replicate 12 1 @ replicate 12 2)
   \<and> read_soi two_row_file = Inl IndexError"
  by (simp add: read_soi_def genfromtxt_def squeeze_def soi_series_def overlong_final_row_def
      two_row_file_def)

text \<open>
  C8, amended: when the rows before the final one all have \<open>ncol\<close> columns (at least
  two such rows, at least two columns) and the final row has any other number of columns,
  shorter or longer, the strict parse raises \<open>ValueError\<close>, the parser retries once
  without the final row and succeeds, and the values are those of the first \<open>N - 1\<close>
  rows: \<open>(N - 1) * (ncol - 1)\<close> entries. The retry is the only recovery: when it raises
  too, its error is the result.
\<close>

theorem soi_retry_drops_final_row:
  "([] \<notin> set lines \<longrightarrow> 2 \<le> length (butlast lines) \<longrightarrow> 2 \<le> ncol \<longrightarrow>
      (\<forall>r \<in> set (butlast lines). length r = ncol) \<longrightarrow> length (last lines) \<noteq> ncol \<longrightarrow>
        genfromtxt 0 lines = Inl ValueError
        \<and> (\<exists>ts. read_soi lines = Inr ts
              \<and> ts_data ts = concat (map tl (butlast lines))
              \<and> length (ts_data ts) = (length lines - 1) * (ncol - 1)))
   \<and> (\<forall>e. genfromtxt 0 lines = Inl ValueError \<longrightarrow> genfromtxt 1 lines = Inl e \<longrightarrow>
          read_soi lines = Inl e)"
proof (rule conjI; intro allI impI)
  assume a: "[] \<notin> set lines" "2 \<le> length (butlast lines)" "2 \<le> ncol"
    "\<forall>r \<in> set (butlast lines). length r = ncol" "length (last lines) \<noteq> ncol"
  have ne: "lines \<noteq> []" "butlast lines \<noteq> []"
    using a(2) by (auto simp del: length_butlast)
  have "hd lines = hd (butlast lines)"
    using ne by (cases lines) auto
  moreover have "hd (butlast lines) \<in> set (butlast lines)" using ne by simp
  ultimately have h: "length (hd lines) = ncol" using a(4) by simp
  have strict: "genfromtxt 0 lines = Inl ValueError"
    using genfromtxt_ragged [OF a(1), of "last lines"] ne a(5) h by simp
  have retry: "genfromtxt 1 lines = Inr (Arr2 (butlast lines))"
    using genfromtxt_footer_table [OF a(1,2,4,3)] .
  define ts where "ts = \<lparr>ts_name = ''SOI'',
      ts_times = arange (hd (map hd (butlast lines))) (last (map hd (butlast lines)) + 1) (1 / 12),
      ts_data = concat (map tl (butlast lines))\<rparr>"
  have r: "read_soi lines = Inr ts"
    using retry by (simp add: read_soi_def strict soi_series_def ts_def Let_def)
  have "length (ts_data ts) = (length lines - 1) * (ncol - 1)"
    using length_concat_tl [OF a(4)] by (simp add: ts_def)
  with strict r show "genfromtxt 0 lines = Inl ValueError
        \<and> (\<exists>ts. read_soi lines = Inr ts
              \<and> ts_data ts = concat (map tl (butlast lines))
              \<and> length (ts_data ts) = (length lines - 1) * (ncol - 1))"
    by (auto simp: ts_def)
next
  fix e
  assume "genfromtxt 0 lines = Inl ValueError" "genfromtxt 1 lines = Inl e"
  then show "read_soi lines = Inl e" by (simp add: read_soi_def)
qed

text \<open>Three rows with a short final row give the 24 values of the first two rows; with
  a short middle row the retry fails as well.\<close>

theorem soi_retry_drops_final_row_witness:
  "genfromtxt 0 short_final_row = Inl ValueError
   \<and> (\<exists>ts. read_soi short_final_row = Inr ts \<and> ts_data ts = replicate 12 1 @ replicate 12 2
          \<and> length (ts_data ts) = (3 - 1) * (13 - 1))
   \<and> genfromtxt 0 ragged_middle_row = Inl ValueError
   \<and> genfromtxt 1 ragged_middle_row = Inl ValueError
   \<and> read_soi ragged_middle_row = Inl ValueError"
proof -
  have a: "[] \<notin> set short_final_row" "2 \<le> length (butlast short_final_row)" "(2::nat) \<le> 13"
    "\<forall>r \<in> set (butlast short_final_row). length r = 13" "length (last short_final_row) \<noteq> 13"
    by (simp_all add: short_final_row_def)
  have b: "genfromtxt 0 ragged_middle_row = Inl ValueError"
    "genfromtxt 1 ragged_middle_row = Inl ValueError"
    by (simp_all add: genfromtxt_def ragged_middle_row_def)
  have c: "concat (map tl (butlast short_final_row)) = replicate 12 1 @ replicate 12 2"
    "length short_final_row = 3"
    by (simp_all add: short_final_row_def)
  from soi_retry_drops_final_row [of short_final_row 13] a c
  have 1: "genfromtxt 0 short_final_row = Inl ValueError
   \<and> (\<exists>ts. read_soi short_final_row = Inr ts \<and> ts_data ts = replicate 12 1 @ replicate 12 2
          \<and> length (ts_data ts) = (3 - 1) * (13 - 1))"
    by auto
  from soi_retry_drops_final_row [of ragged_middle_row 13] b
  have 2: "read_soi ragged_middle_row = Inl ValueError" by blast
  from 1 2 b show ?thesis by blast
qed

section \<open>Whole years in the reference window\<close>

text \<open>
  C9. The climatology reshapes the data of the reference window into groups of 12
  months. When the number of time steps is not a multiple of 12 the reshape raises and
  no climatology is produced; when it is a multiple of 12 (and the grid is not empty)
  the climatology is produced, with shape \<open>(12, nlat, nlon)\<close>.
\<close>

theorem climatology_needs_whole_years:
  "(ntime d mod 12 \<noteq> 0 \<longrightarrow> climatology min_years d = Inl ValueError)
   \<and> (ntime d mod 12 = 0 \<longrightarrow> 0 < nlat d * nlon d \<longrightarrow>
        (\<exists>clim nyears. climatology min_years d = Inr (clim, nyears)
           \<and> ntime clim = 12 \<and> nlat clim = nlat d \<and> nlon clim = nlon d
           \<and> length (cells clim) = 12 * nlat d * nlon d))"
  using reshape_years_cases [of d]
  by (auto simp: climatology_def Let_def masked_where_def length_axis0_columns)

text \<open>Thirteen months fail; twenty-four months give a climatology.\<close>

theorem climatology_needs_whole_years_witness:
  "climatology 15 thirteen_month_cube = Inl ValueError
   \<and> (\<exists>clim nyears. climatology 15 two_year_cube = Inr (clim, nyears) \<and> ntime clim = 12)"
proof -
  have d1: "ntime thirteen_month_cube mod 12 \<noteq> 0"
    by (simp add: thirteen_month_cube_def)
  have d2: "ntime two_year_cube mod 12 = 0" "0 < nlat two_year_cube * nlon two_year_cube"
    by (simp_all add: two_year_cube_def)
  show ?thesis
    using climatology_needs_whole_years [of thirteen_month_cube 15]
          climatology_needs_whole_years [of two_year_cube 15] d1 d2
    by blast
qed

section \<open>Time axis of the SOI series\<close>



end
